theory Spec2Isabelle
  imports Complex_Main
begin

section \<open>Entity model (types.ts)\<close>

text \<open>
  The TypeScript interfaces become records, the enum and the string-literal unions become
  datatypes. JavaScript numbers are modelled as reals: every number the simulator stores is
  finite (it is built from values of \<open>Math.random()\<close> by \<open>+\<close>, \<open>*\<close>, \<open>Math.floor\<close>,
  \<open>Math.min\<close> and \<open>Math.max\<close>), and the properties below are about comparisons and
  clamping, which are exact on floating-point numbers too. Strings are \<open>char list\<close>; a
  character stands for one code unit in the range U+0000..U+00FF.

  Field names follow the source; a field called \<open>id\<close>, \<open>name\<close>, \<open>type\<close>, \<open>message\<close> or
  \<open>timestamp\<close> in several interfaces is prefixed with its interface (\<open>pod_id\<close>,
  \<open>pod_name\<close>, \<open>ev_id\<close>, \<open>alert_id\<close>, ...). Optional fields (\<open>connections?\<close>,
  \<open>schedulingConstraints?\<close>, \<open>data?\<close>) are options, \<open>None\<close> being \<open>undefined\<close>.
\<close>

datatype ResourceStatus = RUNNING | PENDING | ERROR | TERMINATING

text \<open>The string value of each enum member.\<close>

fun statusString :: "ResourceStatus \<Rightarrow> string" where
  "statusString RUNNING = ''Running''"
| "statusString PENDING = ''Pending''"
| "statusString ERROR = ''Error''"
| "statusString TERMINATING = ''Terminating''"

record PodUsage =
  cpu :: real
  memory :: real

datatype K8sEventType = EvNormal | EvWarning

record K8sEvent =
  ev_id :: string
  ev_type :: K8sEventType
  reason :: string
  ev_message :: string
  ev_timestamp :: string

datatype AlertType = Status | Utilization

datatype AlertSeverity = Warning | Critical

record Alert =
  alert_id :: string
  podId :: string
  podName :: string
  alert_type :: AlertType
  severity :: AlertSeverity
  message :: string
  timestamp :: int

datatype ConstraintType = NodeAffinity | PodAffinity | PodAntiAffinity

datatype ConstraintRule = Required | Preferred

record SchedulingConstraint =
  sc_type :: ConstraintType
  rule :: ConstraintRule
  labelSelector :: string

record Pod =
  pod_id :: string
  pod_name :: string
  namespace :: string
  status :: ResourceStatus
  ip :: string
  node :: string
  labels :: "(string \<times> string) list"
  creationTimestamp :: string
  usage :: PodUsage
  events :: "K8sEvent list"
  connections :: "string list option"
  schedulingConstraints :: "SchedulingConstraint list option"

record ClusterState =
  pods :: "Pod list"
  namespaces :: "string list"

section \<open>The host: \<open>Math.random\<close>, \<open>Date\<close> and number formatting\<close>

text \<open>
  The program reads two sources of nondeterminism: \<open>Math.random()\<close> and the clock
  (\<open>new Date()\<close>). Both are streams handed in from outside: \<open>randoms h n\<close> is the value
  the \<open>n\<close>-th coming call of \<open>Math.random()\<close> returns, \<open>clock h n\<close> the time in
  milliseconds the \<open>n\<close>-th coming \<open>new Date()\<close> reads. A call consumes the head of its
  stream. \<open>toString36\<close> is \<open>Number.prototype.toString(36)\<close> and \<open>toISOString\<close> is
  \<open>Date.prototype.toISOString\<close>; neither is interpreted.
\<close>

record host =
  randoms :: "nat \<Rightarrow> real"
  clock :: "nat \<Rightarrow> int"
  toString36 :: "real \<Rightarrow> string"
  toISOString :: "int \<Rightarrow> string"

definition mathRandom :: "host \<Rightarrow> real \<times> host" where
  "mathRandom h = (randoms h 0, h\<lparr>randoms := (\<lambda>n. randoms h (Suc n))\<rparr>)"

definition newDate :: "host \<Rightarrow> int \<times> host" where
  "newDate h = (clock h 0, h\<lparr>clock := (\<lambda>n. clock h (Suc n))\<rparr>)"

text \<open>The contract of \<open>Math.random()\<close>: every value lies in \<open>[0, 1)\<close>.\<close>

definition validRandoms :: "host \<Rightarrow> bool" where
  "validRandoms h = (\<forall>n. 0 \<le> randoms h n \<and> randoms h n < 1)"

section \<open>The store\<close>

text \<open>
  \<open>ClusterState\<close> objects live in a store and are handed around by reference. The only
  object the program ever mutates after construction is the simulator's \<open>this.state\<close>
  (its \<open>pods\<close> field is reassigned on every tick); pod objects and arrays are replaced,
  never updated in place, once the constructor has returned. So a cell holds the contents
  of one \<open>ClusterState\<close> object, and what can be shared is the cell.
\<close>

type_synonym ref = nat

record heap =
  objs :: "ref \<Rightarrow> ClusterState"
  fresh :: ref

definition deref :: "heap \<Rightarrow> ref \<Rightarrow> ClusterState" where
  "deref H r = objs H r"

definition alloc :: "heap \<Rightarrow> ClusterState \<Rightarrow> ref \<times> heap" where
  "alloc H v = (fresh H, H\<lparr>objs := (objs H)(fresh H := v), fresh := Suc (fresh H)\<rparr>)"

definition assign :: "heap \<Rightarrow> ref \<Rightarrow> ClusterState \<Rightarrow> heap" where
  "assign H r v = H\<lparr>objs := (objs H)(r := v)\<rparr>"

section \<open>Strings\<close>

text \<open>
  The methods of \<open>String.prototype\<close> the program calls. \<open>isSpace\<close> is the class \<open>\s\<close> of a
  regular expression, which is also what \<open>trim\<close> strips, within the code units modelled.
\<close>

definition newline :: char where
  "newline = CHR 0x0A"

definition dquote :: char where
  "dquote = CHR 0x22"

definition isSpace :: "char \<Rightarrow> bool" where
  "isSpace c = (c \<in> {CHR 0x09, CHR 0x0A, CHR 0x0B, CHR 0x0C, CHR 0x0D, CHR 0x20, CHR 0xA0})"

definition trim :: "string \<Rightarrow> string" where
  "trim s = rev (dropWhile isSpace (rev (dropWhile isSpace s)))"

fun startsWith :: "string \<Rightarrow> string \<Rightarrow> bool" where
  "startsWith s [] = True"
| "startsWith [] (p # ps) = False"
| "startsWith (c # cs) (p # ps) = (c = p \<and> startsWith cs ps)"

fun includesStr :: "string \<Rightarrow> string \<Rightarrow> bool" where
  "includesStr [] sub = (sub = [])"
| "includesStr (c # cs) sub = (startsWith (c # cs) sub \<or> includesStr cs sub)"

definition padEnd :: "string \<Rightarrow> nat \<Rightarrow> string" where
  "padEnd s n = s @ replicate (n - length s) (CHR '' '')"

definition substr :: "string \<Rightarrow> nat \<Rightarrow> nat \<Rightarrow> string" where
  "substr s start len = take len (drop start s)"

fun join :: "string \<Rightarrow> string list \<Rightarrow> string" where
  "join sep [] = []"
| "join sep [x] = x"
| "join sep (x # y # ys) = x @ sep @ join sep (y # ys)"

text \<open>
  \<open>s.split(sep)\<close>: the pieces between the occurrences of \<open>sep\<close>, found from left to right
  without overlap; an empty separator splits into single code units.
\<close>

fun splitAcc :: "string \<Rightarrow> string \<Rightarrow> string \<Rightarrow> string list" where
  "splitAcc sep acc [] = [rev acc]"
| "splitAcc sep acc (c # cs) =
     (if sep \<noteq> [] \<and> startsWith (c # cs) sep
      then rev acc # splitAcc sep [] (drop (length sep) (c # cs))
      else splitAcc sep (c # acc) cs)"

definition split :: "string \<Rightarrow> string \<Rightarrow> string list" where
  "split s sep = (if sep = [] then map (\<lambda>c. [c]) s else splitAcc sep [] s)"

text \<open>Reading an array element: \<open>None\<close> is \<open>undefined\<close>.\<close>

definition elemAt :: "'a list \<Rightarrow> nat \<Rightarrow> 'a option" where
  "elemAt xs i = (if i < length xs then Some (xs ! i) else None)"

text \<open>A value inside a template literal: \<open>undefined\<close> prints as the word.\<close>

fun templ :: "string option \<Rightarrow> string" where
  "templ None = ''undefined''"
| "templ (Some s) = s"

text \<open>\<open>a || b\<close> on values that are a string or \<open>undefined\<close>: the empty string is falsy.\<close>

fun orElse :: "string option \<Rightarrow> string option \<Rightarrow> string option" where
  "orElse (Some a) b = (if a = [] then b else Some a)"
| "orElse None b = b"

text \<open>
  An integer inside a template literal, in decimal. JavaScript prints an integer of
  magnitude below \<open>10^21\<close> so; the integers printed here are pod indices and rounded
  usage values.
\<close>

fun digitsOf :: "nat \<Rightarrow> string" where
  "digitsOf n =
     (if n < 10 then [''0123456789'' ! n]
      else digitsOf (n div 10) @ [''0123456789'' ! (n mod 10)])"

declare digitsOf.simps [simp del]

definition numberToString :: "int \<Rightarrow> string" where
  "numberToString i = (if i < 0 then CHR ''-'' # digitsOf (nat (- i)) else digitsOf (nat i))"

text \<open>\<open>Math.round\<close>: the nearest integer, a half rounding up.\<close>

definition mathRound :: "real \<Rightarrow> int" where
  "mathRound x = \<lfloor>x + 1 / 2\<rfloor>"

subsection \<open>The regular expressions of \<open>executeCommand\<close>\<close>

text \<open>
  \<open>\s+(\S+)\<close> at the start of \<open>s\<close>: both quantifiers are greedy, so the group is the whole
  run of non-space code units after the whole run of spaces, and there is a match exactly
  when both runs are non-empty.
\<close>

definition spacesThenToken :: "string \<Rightarrow> string option" where
  "spacesThenToken s =
     (let tok = takeWhile (\<lambda>c. \<not> isSpace c) (dropWhile isSpace s)
      in if takeWhile isSpace s \<noteq> [] \<and> tok \<noteq> [] then Some tok else None)"

text \<open>
  \<open>String.prototype.match\<close> without the \<open>g\<close> flag tries the expression at each index
  from the left, the end of the string included, and returns the first match.
\<close>

fun firstMatch :: "(string \<Rightarrow> 'a option) \<Rightarrow> string \<Rightarrow> 'a option" where
  "firstMatch m [] = m []"
| "firstMatch m (c # cs) = (case m (c # cs) of Some g \<Rightarrow> Some g | None \<Rightarrow> firstMatch m cs)"

text \<open>\<open>/exec -it\s+([^\s]+)/\<close> anchored at the start of \<open>s\<close>: the value of group 1.\<close>

definition execAt :: "string \<Rightarrow> string option" where
  "execAt s = (if startsWith s ''exec -it'' then spacesThenToken (drop 8 s) else None)"

text \<open>
  \<open>/-n\s+(\S+)|--namespace=(\S+)/\<close> anchored at the start of \<open>s\<close>: the values of groups 1
  and 2. The first alternative is tried first.
\<close>

definition namespaceAt :: "string \<Rightarrow> (string option \<times> string option) option" where
  "namespaceAt s =
     (let alt1 = (if startsWith s ''-n'' then spacesThenToken (drop 2 s) else None);
          tok2 = takeWhile (\<lambda>c. \<not> isSpace c) (drop 12 s)
      in case alt1 of
           Some g \<Rightarrow> Some (Some g, None)
         | None \<Rightarrow> if startsWith s ''--namespace='' \<and> tok2 \<noteq> [] then Some (None, Some tok2)
                    else None)"

section \<open>The tick: \<open>KubernetesSimulator.getState\<close>\<close>

record KubernetesSimulator =
  state :: ref

text \<open>
  Lines 139 to 142, the status flip: \<open>r\<close> is the value of the first \<open>Math.random()\<close> of the
  iteration.
\<close>

definition flipStatus :: "real \<Rightarrow> ResourceStatus \<Rightarrow> ResourceStatus" where
  "flipStatus r s = (if r < 0.01 then (if s = RUNNING then ERROR else RUNNING) else s)"

text \<open>
  The callback of \<open>this.state.pods.map\<close>: four calls of \<open>Math.random()\<close>, in the order of
  the source (flip, CPU delta, spike, memory delta).
\<close>

definition tickPod :: "host \<Rightarrow> Pod \<Rightarrow> Pod \<times> host" where
  "tickPod h pod =
     (let (r1, h1) = mathRandom h;
          status' = flipStatus r1 (status pod);
          (r2, h2) = mathRandom h1;
          cpuDelta0 = r2 * 10 - 5;
          (r3, h3) = mathRandom h2;
          cpuDelta = (if r3 < 0.05 then 50 else cpuDelta0);
          (r4, h4) = mathRandom h3
      in (pod\<lparr>status := status',
               usage := \<lparr>cpu = max 0 (min 100 (cpu (usage pod) + cpuDelta)),
                          memory = max 0 (min 100 (memory (usage pod) + (r4 * 4 - 2)))\<rparr>\<rparr>,
          h4))"

fun tickPods :: "host \<Rightarrow> Pod list \<Rightarrow> Pod list \<times> host" where
  "tickPods h [] = ([], h)"
| "tickPods h (pod # rest) =
     (let (pod', h1) = tickPod h pod;
          (rest', h2) = tickPods h1 rest
      in (pod' # rest', h2))"

text \<open>
  \<open>getState\<close> assigns the new array to \<open>this.state.pods\<close> and returns \<open>this.state\<close>: the
  reference of the simulator's own object.
\<close>

definition getState :: "host \<Rightarrow> heap \<Rightarrow> KubernetesSimulator \<Rightarrow> ref \<times> heap \<times> host" where
  "getState h H this =
     (let st = deref H (state this);
          (pods', h') = tickPods h (pods st)
      in (state this, assign H (state this) (st\<lparr>pods := pods'\<rparr>), h'))"

section \<open>Initialization: the constructor\<close>

text \<open>\<open>Math.random().toString(36).substr(2, 9)\<close>, the random identifier.\<close>

definition randomId :: "host \<Rightarrow> string \<times> host" where
  "randomId h = (let (r, h1) = mathRandom h in (substr (toString36 h r) 2 9, h1))"

definition INITIAL_NAMESPACES :: "string list" where
  "INITIAL_NAMESPACES = [''default'', ''kube-system'', ''production'', ''monitoring'']"

definition generateMockEvents :: "host \<Rightarrow> string \<Rightarrow> string \<Rightarrow> K8sEvent list \<times> host" where
  "generateMockEvents h pName nName =
     (let (now, h0) = newDate h;
          (id1, h1) = randomId h0;
          (id2, h2) = randomId h1;
          (id3, h3) = randomId h2;
          (id4, h4) = randomId h3;
          (id5, h5) = randomId h4
      in ([\<lparr>ev_id = id1, ev_type = EvNormal, reason = ''Scheduled'',
             ev_message = ''Successfully assigned '' @ pName @ '' to '' @ nName,
             ev_timestamp = toISOString h (now - 1000 * 60 * 60)\<rparr>,
           \<lparr>ev_id = id2, ev_type = EvNormal, reason = ''Pulling'',
             ev_message = ''Pulling image '' @ [dquote] @ ''nginx:latest'' @ [dquote],
             ev_timestamp = toISOString h (now - 1000 * 60 * 59)\<rparr>,
           \<lparr>ev_id = id3, ev_type = EvNormal, reason = ''Pulled'',
             ev_message = ''Successfully pulled image '' @ [dquote] @ ''nginx:latest''
                            @ [dquote] @ '' in 2.1s'',
             ev_timestamp = toISOString h (now - 1000 * 60 * 58)\<rparr>,
           \<lparr>ev_id = id4, ev_type = EvNormal, reason = ''Created'',
             ev_message = ''Created container main'',
             ev_timestamp = toISOString h (now - 1000 * 60 * 57)\<rparr>,
           \<lparr>ev_id = id5, ev_type = EvNormal, reason = ''Started'',
             ev_message = ''Started container main'',
             ev_timestamp = toISOString h (now - 1000 * 60 * 56)\<rparr>],
          h5))"

definition nodes :: "string list" where
  "nodes = [''node-1'', ''node-2'', ''node-3'']"

definition names :: "string list" where
  "names = [''api-gateway'', ''auth-service'', ''user-db'', ''redis-cache'', ''worker-node-a'']"

definition systemNames :: "string list" where
  "systemNames = [''coredns'', ''kube-proxy'', ''calico-node'', ''metrics-server'']"

text \<open>The callback of \<open>names.forEach\<close>: the pod it pushes.\<close>

definition defaultPod :: "host \<Rightarrow> string \<Rightarrow> nat \<Rightarrow> Pod \<times> host" where
  "defaultPod h name i =
     (let nodeName = nodes ! (i mod length nodes);
          (r0, h0) = mathRandom h;
          fullPodName = name @ ''-'' @ substr (toString36 h r0) 0 5;
          constraints =
            (if name = ''api-gateway''
             then [\<lparr>sc_type = NodeAffinity, rule = Required, labelSelector = ''disk=ssd''\<rparr>]
             else [])
            @ (if name = ''user-db''
               then [\<lparr>sc_type = PodAntiAffinity, rule = Required, labelSelector = ''app=user-db''\<rparr>]
               else [])
            @ (if name = ''redis-cache''
               then [\<lparr>sc_type = PodAffinity, rule = Preferred, labelSelector = ''app=user-db''\<rparr>]
               else []);
          (rid, h1) = randomId h0;
          (created, h2) = newDate h1;
          (r1, h3) = mathRandom h2;
          (r2, h4) = mathRandom h3;
          (evs, h5) = generateMockEvents h4 fullPodName nodeName
      in (\<lparr>pod_id = ''pod-'' @ rid,
           pod_name = fullPodName,
           namespace = ''default'',
           status = RUNNING,
           ip = ''10.244.0.'' @ numberToString (int i + 10),
           node = nodeName,
           labels = [(''app'', name), (''tier'', if i < 2 then ''frontend'' else ''backend'')],
           creationTimestamp = toISOString h created,
           usage = \<lparr>cpu = real_of_int (\<lfloor>r1 * 60\<rfloor> + 5), memory = real_of_int (\<lfloor>r2 * 70\<rfloor> + 10)\<rparr>,
           events = evs,
           connections = Some [],
           schedulingConstraints = Some constraints\<rparr>,
          h5))"

text \<open>The callback of \<open>systemNames.forEach\<close>.\<close>

definition systemPod :: "host \<Rightarrow> string \<Rightarrow> nat \<Rightarrow> Pod \<times> host" where
  "systemPod h name i =
     (let nodeName = nodes ! 0;
          (r0, h0) = mathRandom h;
          fullPodName = name @ ''-'' @ substr (toString36 h r0) 0 5;
          (created, h1) = newDate h0;
          (r1, h2) = mathRandom h1;
          (r2, h3) = mathRandom h2;
          (evs, h4) = generateMockEvents h3 fullPodName nodeName
      in (\<lparr>pod_id = ''sys-'' @ numberToString (int i),
           pod_name = fullPodName,
           namespace = ''kube-system'',
           status = RUNNING,
           ip = ''10.96.0.'' @ numberToString (int i + 1),
           node = nodeName,
           labels = [(''k8s-app'', name)],
           creationTimestamp = toISOString h created,
           usage = \<lparr>cpu = real_of_int (\<lfloor>r1 * 15\<rfloor> + 2), memory = real_of_int (\<lfloor>r2 * 20\<rfloor> + 5)\<rparr>,
           events = evs,
           connections = Some [],
           schedulingConstraints = None\<rparr>,
          h4))"

text \<open>\<open>xs.forEach((x, i) => pods.push(mk(x, i)))\<close>, the index starting at \<open>i\<close>.\<close>

fun pushEach :: "(host \<Rightarrow> string \<Rightarrow> nat \<Rightarrow> Pod \<times> host) \<Rightarrow> host \<Rightarrow> nat \<Rightarrow> string list
                   \<Rightarrow> Pod list \<times> host" where
  "pushEach mk h i [] = ([], h)"
| "pushEach mk h i (x # xs) =
     (let (pod, h1) = mk h x i;
          (rest, h2) = pushEach mk h1 (Suc i) xs
      in (pod # rest, h2))"

text \<open>
  Reading \<open>.id\<close> of \<open>undefined\<close> throws: \<open>pods[k]\<close> is \<open>undefined\<close> when \<open>k\<close> is not an
  index of the array.
\<close>

datatype error = TypeError

text \<open>\<open>pod.connections?.includes(id)\<close> and \<open>pod.connections?.push(id)\<close>.\<close>

definition connectionsInclude :: "Pod \<Rightarrow> string \<Rightarrow> bool" where
  "connectionsInclude pod tid = (case connections pod of None \<Rightarrow> False | Some cs \<Rightarrow> tid \<in> set cs)"

definition connectionsPush :: "Pod \<Rightarrow> string \<Rightarrow> Pod" where
  "connectionsPush pod tid = pod\<lparr>connections := map_option (\<lambda>cs. cs @ [tid]) (connections pod)\<rparr>"

text \<open>
  The \<open>for\<close> loop over \<open>j\<close>, with the number of iterations left. \<open>all\<close> is the array
  \<open>pods\<close>; the loop reads the \<open>id\<close> of its elements only, and no \<open>id\<close> changes.
\<close>

fun connectLoop :: "host \<Rightarrow> Pod list \<Rightarrow> Pod \<Rightarrow> nat \<Rightarrow> error + (Pod \<times> host)" where
  "connectLoop h all pod 0 = Inr (pod, h)"
| "connectLoop h all pod (Suc j) =
     (let (r, h1) = mathRandom h;
          k = \<lfloor>r * real (length all)\<rfloor>
      in if 0 \<le> k \<and> k < int (length all)
         then (let target = all ! nat k;
                   pod' = (if pod_id target \<noteq> pod_id pod \<and> \<not> connectionsInclude pod (pod_id target)
                           then connectionsPush pod (pod_id target) else pod)
               in connectLoop h1 all pod' j)
         else Inl TypeError)"

text \<open>The callback of the last \<open>pods.forEach\<close>, and the loop over the pods.\<close>

definition connectPod :: "host \<Rightarrow> Pod list \<Rightarrow> Pod \<Rightarrow> error + (Pod \<times> host)" where
  "connectPod h all pod =
     (let (r, h1) = mathRandom h
      in if r > 0.5
         then (let (r2, h2) = mathRandom h1;
                   targetCount = \<lfloor>r2 * 2\<rfloor> + 1
               in connectLoop h2 all pod (nat targetCount))
         else Inr (pod, h1))"

fun connectPods :: "host \<Rightarrow> Pod list \<Rightarrow> Pod list \<Rightarrow> error + (Pod list \<times> host)" where
  "connectPods h all [] = Inr ([], h)"
| "connectPods h all (pod # rest) =
     (case connectPod h all pod of
        Inl e \<Rightarrow> Inl e
      | Inr (pod', h1) \<Rightarrow>
          (case connectPods h1 all rest of
             Inl e \<Rightarrow> Inl e
           | Inr (rest', h2) \<Rightarrow> Inr (pod' # rest', h2)))"

definition generateMockPods :: "host \<Rightarrow> error + (Pod list \<times> host)" where
  "generateMockPods h =
     (let (defaults, h1) = pushEach defaultPod h 0 names;
          (systems, h2) = pushEach systemPod h1 0 systemNames;
          pods0 = defaults @ systems
      in connectPods h2 pods0 pods0)"

text \<open>\<open>new KubernetesSimulator()\<close>: the object literal of \<open>this.state\<close> is a new cell.\<close>

definition constructor :: "host \<Rightarrow> heap \<Rightarrow> error + (KubernetesSimulator \<times> heap \<times> host)" where
  "constructor h H =
     (case generateMockPods h of
        Inl e \<Rightarrow> Inl e
      | Inr (ps, h') \<Rightarrow>
          (let (r, H') = alloc H \<lparr>pods = ps, namespaces = INITIAL_NAMESPACES\<rparr>
           in Inr (\<lparr>state = r\<rparr>, H', h')))"

section \<open>Commands: \<open>KubernetesSimulator.executeCommand\<close>\<close>

text \<open>The interactive shell: the transcript, with the name the expression extracts.\<close>

definition shellOutput :: "string \<Rightarrow> string" where
  "shellOutput cmd =
     (let target = templ (orElse (firstMatch execAt cmd) (Some ''pod''))
      in join [newline]
       [''Defaulting container name to main.'',
        ''Successfully connected to pod/'' @ target,
        ''/ # whoami'',
        ''root'',
        ''/ # ls -F /app'',
        ''bin/  config.json  main.js  node_modules/  package.json  public/'',
        ''/ # netstat -tuln'',
        ''Active Internet connections (only servers)'',
        ''Proto Recv-Q Send-Q Local Address           Foreign Address         State       '',
        ''tcp        0      0 0.0.0.0:8080            0.0.0.0:*               LISTEN      '',
        ''/ # ps aux'',
        ''PID   USER     TIME  COMMAND'',
        ''    1 root      0:05 node main.js'',
        ''   42 root      0:00 /bin/sh'',
        ''   43 root      0:00 ps aux'',
        ''/ # exit'',
        ''command terminated with exit code 0''])"

text \<open>
  \<open>get pods\<close>. \<open>ns\<close> is a string or \<open>undefined\<close>; \<open>p.namespace === ns\<close> is false for
  \<open>undefined\<close>.
\<close>

definition getPodsNamespace :: "string \<Rightarrow> string option" where
  "getPodsNamespace cmd =
     (case firstMatch namespaceAt cmd of
        Some (g1, g2) \<Rightarrow> orElse g1 g2
      | None \<Rightarrow> Some ''default'')"

definition allNamespaces :: "string \<Rightarrow> bool" where
  "allNamespaces cmd = (includesStr cmd ''-A'' \<or> includesStr cmd ''--all-namespaces'')"

definition header :: string where
  "header = padEnd ''NAME'' 30 @ padEnd ''READY'' 10 @ padEnd ''STATUS'' 15
            @ padEnd ''RESTARTS'' 10 @ ''AGE''"

definition row :: "Pod \<Rightarrow> string" where
  "row p = padEnd (padEnd (pod_name p) 30 @ ''1/1'') 10
           @ padEnd (padEnd (statusString (status p)) 15 @ ''0'') 10 @ ''2d''"

definition getPodsOutput :: "ClusterState \<Rightarrow> string \<Rightarrow> string" where
  "getPodsOutput st cmd =
     (let ns = getPodsNamespace cmd;
          all = allNamespaces cmd;
          filtered = (if all then pods st else filter (\<lambda>p. Some (namespace p) = ns) (pods st))
      in if length filtered = 0 then ''No resources found in '' @ templ ns @ '' namespace.''
         else join [newline] (header # map row filtered))"

text \<open>\<open>describe pod\<close>: \<open>cmd.split('describe pod ')[1]?.split(' ')[0]\<close> names the pod.\<close>

definition describePodName :: "string \<Rightarrow> string option" where
  "describePodName cmd =
     (case elemAt (split cmd ''describe pod '') 1 of
        None \<Rightarrow> None
      | Some rest \<Rightarrow> elemAt (split rest '' '') 0)"

definition describePodOutput :: "ClusterState \<Rightarrow> string \<Rightarrow> string" where
  "describePodOutput st cmd =
     (let target = describePodName cmd
      in case find (\<lambda>p. Some (pod_name p) = target) (pods st) of
           None \<Rightarrow> ''Error: pod '' @ [dquote] @ templ target @ [dquote] @ '' not found''
         | Some pod \<Rightarrow>
             ''Name: '' @ pod_name pod @ [newline] @ ''Namespace: '' @ namespace pod @ [newline]
             @ ''Status: '' @ statusString (status pod) @ [newline] @ ''IP: '' @ ip pod)"

definition logsOutput :: "host \<Rightarrow> string \<times> host" where
  "logsOutput h =
     (let (d1, h1) = newDate h;
          (d2, h2) = newDate h1;
          (d3, h3) = newDate h2
      in (''['' @ toISOString h d1 @ ''] INFO: Starting service...'' @ [newline]
          @ ''['' @ toISOString h d2 @ ''] INFO: Listening on port 8080'' @ [newline]
          @ ''['' @ toISOString h d3 @ ''] INFO: Health check passed'',
          h3))"

definition tcpdumpOutput :: string where
  "tcpdumpOutput =
     join [newline]
       [''tcpdump: listening on eth0, link-type EN10MB (Ethernet)'',
        ''10:00:01.123 IP 10.244.0.10.45678 > 10.244.0.15.80: Flags [S]'',
        ''10:00:01.124 IP 10.244.0.15.80 > 10.244.0.10.45678: Flags [S.]'']"

definition fallbackOutput :: "string \<Rightarrow> string" where
  "fallbackOutput command =
     ''Command executed: '' @ command @ [newline] @ ''Output: Success (Simulated)''"

text \<open>
  The dispatch, in the order of the source; the first test that holds decides. The method
  returns a string; the store it was given is returned beside it.
\<close>

definition executeCommand :: "host \<Rightarrow> heap \<Rightarrow> KubernetesSimulator \<Rightarrow> string
                              \<Rightarrow> string \<times> heap \<times> host" where
  "executeCommand h H this command =
     (let cmd = trim command
      in if includesStr cmd ''exec -it'' then (shellOutput cmd, H, h)
         else if includesStr cmd ''get pods''
           then (getPodsOutput (deref H (state this)) cmd, H, h)
         else if includesStr cmd ''describe pod''
           then (describePodOutput (deref H (state this)) cmd, H, h)
         else if includesStr cmd ''logs''
           then (let (out, h') = logsOutput h in (out, H, h'))
         else if includesStr cmd ''tcpdump'' then (tcpdumpOutput, H, h)
         else (fallbackOutput command, H, h))"

section \<open>Alerts: the interval callback of \<open>App\<close>\<close>

text \<open>
  The callback of \<open>newState.pods.forEach\<close> (lines 38 to 66), with the array \<open>newAlerts\<close> it
  pushes to. \<open>lastState\<close> is the object \<open>lastStateRef.current\<close> as the loop reads it.
\<close>

definition THRESHOLD :: real where
  "THRESHOLD = 90"

definition statusAlert :: "host \<Rightarrow> Pod \<Rightarrow> Alert \<times> host" where
  "statusAlert h pod =
     (let (aid, h1) = randomId h;
          (now, h2) = newDate h1
      in (\<lparr>alert_id = aid, podId = pod_id pod, podName = pod_name pod, alert_type = Status,
           severity = Critical,
           message = ''Pod '' @ pod_name pod @ '' has entered Error state!'',
           timestamp = now\<rparr>, h2))"

definition utilizationAlert :: "host \<Rightarrow> Pod \<Rightarrow> Alert \<times> host" where
  "utilizationAlert h pod =
     (let metric = (if cpu (usage pod) > THRESHOLD then ''CPU'' else ''Memory'');
          (aid, h1) = randomId h;
          (now, h2) = newDate h1
      in (\<lparr>alert_id = aid, podId = pod_id pod, podName = pod_name pod, alert_type = Utilization,
           severity = (if cpu (usage pod) > 95 then Critical else Warning),
           message = ''High '' @ metric @ '' usage on '' @ pod_name pod @ '' (''
                     @ numberToString (mathRound (max (cpu (usage pod)) (memory (usage pod))))
                     @ ''%)'',
           timestamp = now\<rparr>, h2))"

definition alertPod :: "ClusterState \<Rightarrow> Alert list \<times> host \<Rightarrow> Pod \<Rightarrow> Alert list \<times> host" where
  "alertPod lastState acc pod =
     (let (newAlerts, h) = acc
      in case find (\<lambda>p. pod_id p = pod_id pod) (pods lastState) of
           None \<Rightarrow> (newAlerts, h)
         | Some lastPod \<Rightarrow>
             (let (newAlerts1, h1) =
                    (if status pod = ERROR \<and> status lastPod \<noteq> ERROR
                     then (let (a, h') = statusAlert h pod in (newAlerts @ [a], h'))
                     else (newAlerts, h))
              in if (cpu (usage pod) > THRESHOLD \<and> cpu (usage lastPod) \<le> THRESHOLD)
                    \<or> (memory (usage pod) > THRESHOLD \<and> memory (usage lastPod) \<le> THRESHOLD)
                 then (let (a, h') = utilizationAlert h1 pod in (newAlerts1 @ [a], h'))
                 else (newAlerts1, h1)))"

definition alertLoop :: "host \<Rightarrow> ClusterState \<Rightarrow> ClusterState \<Rightarrow> Alert list \<times> host" where
  "alertLoop h lastState newState = foldl (alertPod lastState) ([], h) (pods newState)"

section \<open>The component \<open>App\<close>\<close>

text \<open>
  The state of the component that the simulation and the alerts use: the \<open>useState\<close> cells
  and the \<open>useRef\<close> cell, a state setter taking effect at once. A \<open>ClusterState\<close> is held
  by reference. The \<open>timestamp\<close> of a message is left out: it is read when React runs the
  updater function, at a time the source does not fix.
\<close>

datatype Intent = QUERY | ACTION | DEBUG

record K8sStep =
  description :: string
  step_command :: string
  explanation :: string

record AgentResponse =
  steps :: "K8sStep list"
  intent :: Intent
  summary :: string

datatype Role = User | Agent | Terminal

record Message =
  role :: Role
  content :: string
  data :: "AgentResponse option"

record App =
  simulator :: KubernetesSimulator
  clusterState :: ref
  alerts :: "Alert list"
  activeToast :: "Alert option"
  lastStateRef :: ref
  messages :: "Message list"
  isProcessing :: bool

definition welcomeMessage :: Message where
  "welcomeMessage =
     \<lparr>role = Agent,
      content = ''Hello! I'' @ [CHR 0x27] @ ''m KubeAgent. I'' @ [CHR 0x27]
        @ ''ve enabled real-time monitoring for your cluster. I'' @ [CHR 0x27]
        @ ''ll alert you if any pod enters an Error state or exceeds 90% utilization.'',
      data = None\<rparr>"

text \<open>
  The first render: \<open>new KubernetesSimulator()\<close>, then \<open>simulator.getState()\<close> as the
  initial \<open>clusterState\<close>, which is also the initial \<open>lastStateRef.current\<close>.
\<close>

definition mount :: "host \<Rightarrow> heap \<Rightarrow> error + (App \<times> heap \<times> host)" where
  "mount h H =
     (case constructor h H of
        Inl e \<Rightarrow> Inl e
      | Inr (sim, H1, h1) \<Rightarrow>
          (let (r, H2, h2) = getState h1 H1 sim
           in Inr (\<lparr>simulator = sim, clusterState = r, alerts = [], activeToast = None,
                    lastStateRef = r, messages = [welcomeMessage], isProcessing = False\<rparr>, H2, h2)))"

text \<open>\<open>{ ...newState }\<close>: a new object with the fields of the old one.\<close>

definition spread :: "heap \<Rightarrow> ref \<Rightarrow> ref \<times> heap" where
  "spread H r = alloc H (deref H r)"

text \<open>
  The callback of \<open>setInterval\<close> (lines 35 to 74). The timer that clears the toast after
  five seconds is not part of the model.
\<close>

definition intervalCallback :: "host \<Rightarrow> heap \<Rightarrow> App \<Rightarrow> App \<times> heap \<times> host" where
  "intervalCallback h H app =
     (let (newState, H1, h1) = getState h H (simulator app);
          (newAlerts, h2) = alertLoop h1 (deref H1 (lastStateRef app)) (deref H1 newState);
          app1 = (case newAlerts of
                    [] \<Rightarrow> app
                  | a # _ \<Rightarrow> app\<lparr>alerts := take 50 (newAlerts @ alerts app),
                                 activeToast := Some a\<rparr>);
          (copy, H2) = spread H1 newState
      in (app1\<lparr>lastStateRef := newState, clusterState := copy\<rparr>, H2, h2))"

definition terminalMessage :: "string \<Rightarrow> string \<Rightarrow> Message" where
  "terminalMessage command output =
     \<lparr>role = Terminal, content = ''$ '' @ command @ [newline] @ output, data = None\<rparr>"

definition handleTerminalCommand :: "host \<Rightarrow> heap \<Rightarrow> App \<Rightarrow> string \<Rightarrow> App \<times> heap \<times> host" where
  "handleTerminalCommand h H app command =
     (if trim command = [] then (app, H, h)
      else (let (output, H1, h1) = executeCommand h H (simulator app) command;
                app1 = app\<lparr>messages := messages app @ [terminalMessage command output]\<rparr>;
                (r, H2, h2) = getState h1 H1 (simulator app);
                (copy, H3) = spread H2 r
            in (app1\<lparr>clusterState := copy\<rparr>, H3, h2)))"

text \<open>The \<open>for\<close> loop over \<open>response.steps\<close> in \<open>handleUserInput\<close>.\<close>

fun runSteps :: "host \<Rightarrow> heap \<Rightarrow> App \<Rightarrow> K8sStep list \<Rightarrow> App \<times> heap \<times> host" where
  "runSteps h H app [] = (app, H, h)"
| "runSteps h H app (step # rest) =
     (let (terminalOutput, H1, h1) = executeCommand h H (simulator app) (step_command step);
          app1 = app\<lparr>messages := messages app @ [terminalMessage (step_command step) terminalOutput]\<rparr>
      in runSteps h1 H1 app1 rest)"

text \<open>
  \<open>handleUserInput\<close> from the point where \<open>gemini.processRequest\<close> has settled:
  \<open>response\<close> is its value, \<open>None\<close> when the request was rejected (the \<open>catch\<close> branch).
\<close>

definition handleUserInput :: "host \<Rightarrow> heap \<Rightarrow> App \<Rightarrow> string \<Rightarrow> AgentResponse option
                               \<Rightarrow> App \<times> heap \<times> host" where
  "handleUserInput h H app text response =
     (let app0 = app\<lparr>messages := messages app @ [\<lparr>role = User, content = text, data = None\<rparr>],
                     isProcessing := True\<rparr>
      in case response of
           None \<Rightarrow>
             (app0\<lparr>messages := messages app0
                       @ [\<lparr>role = Agent,
                            content = ''Sorry, I ran into an error processing that request.'',
                            data = None\<rparr>],
                    isProcessing := False\<rparr>, H, h)
         | Some resp \<Rightarrow>
             (let app1 = app0\<lparr>messages := messages app0
                                @ [\<lparr>role = Agent, content = summary resp, data = Some resp\<rparr>]\<rparr>;
                  (app2, H2, h2) = runSteps h H app1 (steps resp);
                  (r, H3, h3) = getState h2 H2 (simulator app);
                  (copy, H4) = spread H3 r
              in (app2\<lparr>clusterState := copy, isProcessing := False\<rparr>, H4, h3)))"

section \<open>Runs of the simulator\<close>

text \<open>
  What a caller can do with a simulator once it is built: ask for the state (a tick) or
  execute a command. A run is any sequence of the two; each action carries the host as it
  is when the call is made, so that anything may have read the random numbers and the
  clock in between.
\<close>

datatype action = Tick host | Command host string

fun perform :: "KubernetesSimulator \<Rightarrow> heap \<Rightarrow> action \<Rightarrow> heap" where
  "perform this H (Tick h) = fst (snd (getState h H this))"
| "perform this H (Command h c) = fst (snd (executeCommand h H this c))"

definition run :: "KubernetesSimulator \<Rightarrow> heap \<Rightarrow> action list \<Rightarrow> heap" where
  "run this H acts = foldl (perform this) H acts"

section \<open>Notions used in the statements\<close>

definition usageInRange :: "Pod \<Rightarrow> bool" where
  "usageInRange p = (0 \<le> cpu (usage p) \<and> cpu (usage p) \<le> 100 \<and>
                     0 \<le> memory (usage p) \<and> memory (usage p) \<le> 100)"

text \<open>The contents of the simulator's \<open>this.state\<close>.\<close>

definition current :: "KubernetesSimulator \<Rightarrow> heap \<Rightarrow> ClusterState" where
  "current this H = deref H (state this)"

text \<open>Two pods that agree on every field but \<open>status\<close> and \<open>usage\<close>.\<close>

definition sameButStatusUsage :: "Pod \<Rightarrow> Pod \<Rightarrow> bool" where
  "sameButStatusUsage p q =
     (pod_id q = pod_id p \<and> pod_name q = pod_name p \<and> namespace q = namespace p
      \<and> ip q = ip p \<and> node q = node p \<and> labels q = labels p
      \<and> creationTimestamp q = creationTimestamp p \<and> events q = events p
      \<and> connections q = connections p \<and> schedulingConstraints q = schedulingConstraints p)"

text \<open>A pod as the constructor creates it, in namespace \<open>ns\<close>.\<close>

definition freshPod :: "string \<Rightarrow> Pod \<Rightarrow> bool" where
  "freshPod ns p = (usageInRange p \<and> status p = RUNNING \<and> namespace p = ns)"

definition onlyConnections :: "Pod \<Rightarrow> Pod \<Rightarrow> bool" where
  "onlyConnections p q = (\<exists>cs. q = p\<lparr>connections := cs\<rparr>)"

text \<open>The roster of the constructor: five pods in \<open>default\<close>, then four in \<open>kube-system\<close>.\<close>

definition initialPods :: "Pod list \<Rightarrow> bool" where
  "initialPods ps =
     (list_all (freshPod ''default'') (take 5 ps) \<and> list_all (freshPod ''kube-system'') (drop 5 ps)
      \<and> length ps = 9)"

definition runningOrError :: "Pod \<Rightarrow> bool" where
  "runningOrError p = (status p = RUNNING \<or> status p = ERROR)"

text \<open>
  What an alert says, without the random \<open>id\<close> and the \<open>timestamp\<close>: \<open>podId\<close>, \<open>podName\<close>,
  \<open>type\<close>, \<open>severity\<close> and \<open>message\<close>.
\<close>

definition alertContent :: "Alert \<Rightarrow> string \<times> string \<times> AlertType \<times> AlertSeverity \<times> string" where
  "alertContent a = (podId a, podName a, alert_type a, severity a, message a)"

text \<open>The pod of the previous snapshot that the loop compares \<open>pod\<close> with.\<close>

definition lastPodOf :: "ClusterState \<Rightarrow> Pod \<Rightarrow> Pod option" where
  "lastPodOf prev pod = find (\<lambda>p. pod_id p = pod_id pod) (pods prev)"

text \<open>The two edges, in the words of the specification.\<close>

definition statusEdge :: "ClusterState \<Rightarrow> Pod \<Rightarrow> bool" where
  "statusEdge prev p =
     (case lastPodOf prev p of
        None \<Rightarrow> False
      | Some lp \<Rightarrow> status p = ERROR \<and> status lp \<noteq> ERROR)"

definition utilizationEdge :: "ClusterState \<Rightarrow> Pod \<Rightarrow> bool" where
  "utilizationEdge prev p =
     (case lastPodOf prev p of
        None \<Rightarrow> False
      | Some lp \<Rightarrow> (cpu (usage p) > 90 \<and> cpu (usage lp) \<le> 90)
                   \<or> (memory (usage p) > 90 \<and> memory (usage lp) \<le> 90))"

definition statusContent :: "Pod \<Rightarrow> string \<times> string \<times> AlertType \<times> AlertSeverity \<times> string" where
  "statusContent p =
     (pod_id p, pod_name p, Status, Critical, ''Pod '' @ pod_name p @ '' has entered Error state!'')"

definition utilizationContent :: "Pod \<Rightarrow> string \<times> string \<times> AlertType \<times> AlertSeverity \<times> string" where
  "utilizationContent p =
     (pod_id p, pod_name p, Utilization,
      if cpu (usage p) > 95 then Critical else Warning,
      ''High '' @ (if cpu (usage p) > 90 then ''CPU'' else ''Memory'') @ '' usage on ''
        @ pod_name p @ '' (''
        @ numberToString (mathRound (max (cpu (usage p)) (memory (usage p)))) @ ''%)'')"

definition podContents :: "ClusterState \<Rightarrow> Pod \<Rightarrow> (string \<times> string \<times> AlertType \<times> AlertSeverity \<times> string) list" where
  "podContents prev p =
     (if statusEdge prev p then [statusContent p] else [])
     @ (if utilizationEdge prev p then [utilizationContent p] else [])"

text \<open>The alerts of one kind that one run of the loop emits for the pod \<open>pid\<close>.\<close>

definition alertsFor :: "AlertType \<Rightarrow> host \<Rightarrow> string \<Rightarrow> ClusterState \<Rightarrow> ClusterState \<Rightarrow> Alert list" where
  "alertsFor ty h pid prev next =
     filter (\<lambda>a. podId a = pid \<and> alert_type a = ty) (fst (alertLoop h prev next))"

text \<open>The pod with the id \<open>pid\<close> in a snapshot that holds exactly one such pod.\<close>

definition podIn :: "ClusterState \<Rightarrow> string \<Rightarrow> Pod option" where
  "podIn s pid = (case filter (\<lambda>p. pod_id p = pid) (pods s) of [p] \<Rightarrow> Some p | _ \<Rightarrow> None)"


definition cpuAbove :: "string \<Rightarrow> ClusterState \<Rightarrow> bool" where
  "cpuAbove pid s = (case podIn s pid of Some p \<Rightarrow> cpu (usage p) > 90 | None \<Rightarrow> False)"

definition cpuAtMost :: "string \<Rightarrow> ClusterState \<Rightarrow> bool" where
  "cpuAtMost pid s = (case podIn s pid of Some p \<Rightarrow> cpu (usage p) \<le> 90 | None \<Rightarrow> False)"




text \<open>A host and a store to run examples on.\<close>

definition exampleHost :: host where
  "exampleHost =
     \<lparr>randoms = (\<lambda>n. 3 / 4), clock = (\<lambda>n. 1000 * int n),
      toString36 = (\<lambda>r. ''0.r1c2k3m4n5p''), toISOString = (\<lambda>t. numberToString t)\<rparr>"

definition emptyHeap :: heap where
  "emptyHeap = \<lparr>objs = (\<lambda>r. \<lparr>pods = [], namespaces = []\<rparr>), fresh = 0\<rparr>"

definition examplePod :: Pod where
  "examplePod =
     \<lparr>pod_id = ''pod-1'', pod_name = ''web'', namespace = ''default'', status = RUNNING,
      ip = ''10.244.0.10'', node = ''node-1'', labels = [(''app'', ''web'')],
      creationTimestamp = ''0'', usage = \<lparr>cpu = 80, memory = 50\<rparr>, events = [],
      connections = Some [], schedulingConstraints = None\<rparr>"

text \<open>A snapshot holding one pod, \<open>examplePod\<close> with the usage given.\<close>

definition snapshot :: "real \<Rightarrow> real \<Rightarrow> ClusterState" where
  "snapshot c m = \<lparr>pods = [examplePod\<lparr>usage := \<lparr>cpu = c, memory = m\<rparr>\<rparr>], namespaces = INITIAL_NAMESPACES\<rparr>"

text \<open>A snapshot holding one pod, \<open>examplePod\<close> with the status given.\<close>

definition statusSnapshot :: "ResourceStatus \<Rightarrow> ClusterState" where
  "statusSnapshot s = \<lparr>pods = [examplePod\<lparr>status := s\<rparr>], namespaces = INITIAL_NAMESPACES\<rparr>"

text \<open>
  A simulator whose state, at reference \<open>0\<close>, is the snapshot given, and the component
  as it stands after the first render on that simulator.
\<close>

definition exampleSim :: KubernetesSimulator where
  "exampleSim = \<lparr>state = 0\<rparr>"

definition exampleStore :: "ClusterState \<Rightarrow> heap" where
  "exampleStore st = snd (alloc emptyHeap st)"

definition exampleApp :: App where
  "exampleApp =
     \<lparr>simulator = exampleSim, clusterState = 0, alerts = [], activeToast = None,
      lastStateRef = 0, messages = [welcomeMessage], isProcessing = False\<rparr>"

definition blankStep :: K8sStep where
  "blankStep = \<lparr>description = ''nothing'', step_command = ''   '', explanation = ''nothing''\<rparr>"

section \<open>Properties of the tick\<close>

lemma mathRandom_valid: "validRandoms h \<Longrightarrow> validRandoms (snd (mathRandom h))"
  by (simp add: validRandoms_def mathRandom_def)

lemma tickPod_usage: "usageInRange (fst (tickPod h pod))"
  by (simp add: tickPod_def usageInRange_def Let_def split: prod.splits)

lemma tickPods_usage: "p \<in> set (fst (tickPods h ps)) \<Longrightarrow> usageInRange p"
proof (induction ps arbitrary: h)
  case Nil
  then show ?case by simp
next
  case (Cons a ps)
  obtain a' h1 where a: "tickPod h a = (a', h1)" by (cases "tickPod h a")
  obtain ps' h2 where ps: "tickPods h1 ps = (ps', h2)" by (cases "tickPods h1 ps")
  from Cons.prems a ps have "p = a' \<or> p \<in> set ps'" by simp
  then show ?case
  proof
    assume "p = a'"
    then show ?thesis using tickPod_usage [of h a] a by simp
  next
    assume "p \<in> set ps'"
    then show ?thesis using Cons.IH [of h1] ps by simp
  qed
qed

lemma tickPod_same: "sameButStatusUsage pod (fst (tickPod h pod))"
  by (simp add: tickPod_def sameButStatusUsage_def Let_def split: prod.splits)

lemma tickPods_same: "list_all2 sameButStatusUsage ps (fst (tickPods h ps))"
proof (induction ps arbitrary: h)
  case Nil
  show ?case by simp
next
  case (Cons a ps)
  show ?case
    using tickPod_same [of a h] Cons.IH [of "snd (tickPod h a)"]
    by (simp add: split_beta Let_def)
qed

lemma getState_ref: "fst (getState h H this) = state this"
  by (simp add: getState_def split_beta Let_def)

lemma getState_current:
  "current this (fst (snd (getState h H this)))
     = (current this H)\<lparr>pods := fst (tickPods h (pods (current this H)))\<rparr>"
  by (simp add: getState_def current_def deref_def assign_def split_beta Let_def)

lemma tickPod_status:
  "status (fst (tickPod h pod)) = flipStatus (randoms h 0) (status pod)"
  by (simp add: tickPod_def mathRandom_def Let_def split_beta)

text \<open>
  Claim C10. A tick changes at most the \<open>status\<close> and the \<open>usage\<close> of each pod: after
  \<open>getState\<close> the simulator holds as many pods as before, in the same order, each equal to
  the pod it replaces in \<open>id\<close>, \<open>name\<close>, \<open>namespace\<close>, \<open>ip\<close>, \<open>node\<close>, \<open>labels\<close>,
  \<open>creationTimestamp\<close>, \<open>events\<close>, \<open>connections\<close> and \<open>schedulingConstraints\<close>, and the
  list of namespaces is the same.
\<close>

theorem tick_frame:
  "list_all2 sameButStatusUsage (pods (current this H))
       (pods (current this (fst (snd (getState h H this)))))
   \<and> namespaces (current this (fst (snd (getState h H this)))) = namespaces (current this H)"
  by (simp add: getState_current tickPods_same)

section \<open>Properties of command execution\<close>

lemma executeCommand_store: "fst (snd (executeCommand h H this command)) = H"
  by (simp add: executeCommand_def Let_def split_beta)

text \<open>
  Claim C9. Whatever the command and whatever the store, \<open>executeCommand\<close> returns the
  store it was given: no branch of the dispatch (shell, get pods, describe pod, logs,
  tcpdump, fallback) writes to a pod or to the list of namespaces.
\<close>

theorem executeCommand_frame:
  "fst (snd (executeCommand h H this command)) = H
   \<and> pods (current this (fst (snd (executeCommand h H this command)))) = pods (current this H)
   \<and> namespaces (current this (fst (snd (executeCommand h H this command))))
       = namespaces (current this H)"
  by (simp add: executeCommand_def Let_def split_beta)

section \<open>Properties of the constructor and of runs\<close>

lemma newDate_randoms: "randoms (snd (newDate h)) = randoms h"
  by (simp add: newDate_def)

lemma newDate_valid: "validRandoms h \<Longrightarrow> validRandoms (snd (newDate h))"
  by (simp add: validRandoms_def newDate_randoms)

lemma mathRandom_range: "validRandoms h \<Longrightarrow> 0 \<le> fst (mathRandom h) \<and> fst (mathRandom h) < 1"
  by (simp add: validRandoms_def mathRandom_def)

lemma randomId_valid: "validRandoms h \<Longrightarrow> validRandoms (snd (randomId h))"
  by (simp add: randomId_def split_beta mathRandom_valid)

lemma generateMockEvents_valid:
  "validRandoms h \<Longrightarrow> validRandoms (snd (generateMockEvents h a b))"
  by (simp add: generateMockEvents_def split_beta randomId_valid newDate_valid)

lemma floor_scaled:
  fixes r :: real
  assumes "0 \<le> r" and "r < 1" and "0 < n"
  shows "0 \<le> \<lfloor>r * real n\<rfloor> \<and> \<lfloor>r * real n\<rfloor> < int n"
proof -
  have "0 \<le> r * real n" using assms by simp
  then have lo: "0 \<le> \<lfloor>r * real n\<rfloor>" by simp
  have "r * real n < 1 * real n" using assms by (intro mult_strict_right_mono) simp_all
  then have "r * real n < real_of_int (int n)" by simp
  then have "\<lfloor>r * real n\<rfloor> < int n" by (simp only: floor_less_iff)
  with lo show ?thesis by simp
qed

lemma floor_times:
  fixes r :: real
  assumes "0 \<le> r" and "r < 1"
  shows "0 \<le> \<lfloor>r * 60\<rfloor> \<and> \<lfloor>r * 60\<rfloor> < 60"
    and "0 \<le> \<lfloor>r * 70\<rfloor> \<and> \<lfloor>r * 70\<rfloor> < 70"
    and "0 \<le> \<lfloor>r * 15\<rfloor> \<and> \<lfloor>r * 15\<rfloor> < 15"
    and "0 \<le> \<lfloor>r * 20\<rfloor> \<and> \<lfloor>r * 20\<rfloor> < 20"
  using floor_scaled [OF assms, of 60] floor_scaled [OF assms, of 70]
    floor_scaled [OF assms, of 15] floor_scaled [OF assms, of 20]
  by simp_all

lemma defaultPod_fresh:
  assumes "validRandoms h"
  shows "freshPod ''default'' (fst (defaultPod h name i)) \<and> validRandoms (snd (defaultPod h name i))"
proof -
  define h0 where "h0 = snd (mathRandom h)"
  define h1 where "h1 = snd (randomId h0)"
  define h2 where "h2 = snd (newDate h1)"
  define h3 where "h3 = snd (mathRandom h2)"
  define h4 where "h4 = snd (mathRandom h3)"
  have v: "validRandoms h2" "validRandoms h3" "validRandoms h4"
    using assms by (simp_all add: h0_def h1_def h2_def h3_def h4_def mathRandom_valid randomId_valid newDate_valid)
  have r1: "0 \<le> \<lfloor>fst (mathRandom h2) * 60\<rfloor> \<and> \<lfloor>fst (mathRandom h2) * 60\<rfloor> < 60"
    using mathRandom_range [OF v(1)] by (intro floor_times) simp_all
  have r2: "0 \<le> \<lfloor>fst (mathRandom h3) * 70\<rfloor> \<and> \<lfloor>fst (mathRandom h3) * 70\<rfloor> < 70"
    using mathRandom_range [OF v(2)] by (intro floor_times) simp_all
  have "usageInRange (fst (defaultPod h name i))"
    using r1 r2 by (simp add: defaultPod_def usageInRange_def split_beta Let_def h0_def h1_def h2_def h3_def)
  moreover have "status (fst (defaultPod h name i)) = RUNNING \<and> namespace (fst (defaultPod h name i)) = ''default''"
    by (simp add: defaultPod_def split_beta Let_def)
  moreover have "validRandoms (snd (defaultPod h name i))"
    using generateMockEvents_valid [OF v(3)]
    by (simp add: defaultPod_def split_beta Let_def h0_def h1_def h2_def h3_def h4_def)
  ultimately show ?thesis by (simp add: freshPod_def)
qed

lemma systemPod_fresh:
  assumes "validRandoms h"
  shows "freshPod ''kube-system'' (fst (systemPod h name i)) \<and> validRandoms (snd (systemPod h name i))"
proof -
  define h0 where "h0 = snd (mathRandom h)"
  define h1 where "h1 = snd (newDate h0)"
  define h2 where "h2 = snd (mathRandom h1)"
  define h3 where "h3 = snd (mathRandom h2)"
  have v: "validRandoms h1" "validRandoms h2" "validRandoms h3"
    using assms by (simp_all add: h0_def h1_def h2_def h3_def mathRandom_valid newDate_valid)
  have r1: "0 \<le> \<lfloor>fst (mathRandom h1) * 15\<rfloor> \<and> \<lfloor>fst (mathRandom h1) * 15\<rfloor> < 15"
    using mathRandom_range [OF v(1)] by (intro floor_times) simp_all
  have r2: "0 \<le> \<lfloor>fst (mathRandom h2) * 20\<rfloor> \<and> \<lfloor>fst (mathRandom h2) * 20\<rfloor> < 20"
    using mathRandom_range [OF v(2)] by (intro floor_times) simp_all
  have "usageInRange (fst (systemPod h name i))"
    using r1 r2 by (simp add: systemPod_def usageInRange_def split_beta Let_def h0_def h1_def h2_def)
  moreover have "status (fst (systemPod h name i)) = RUNNING \<and> namespace (fst (systemPod h name i)) = ''kube-system''"
    by (simp add: systemPod_def split_beta Let_def)
  moreover have "validRandoms (snd (systemPod h name i))"
    using generateMockEvents_valid [OF v(3)]
    by (simp add: systemPod_def split_beta Let_def h0_def h1_def h2_def h3_def)
  ultimately show ?thesis by (simp add: freshPod_def)
qed

lemma pushEach_fresh:
  assumes mk: "\<And>h x i. validRandoms h \<Longrightarrow> freshPod ns (fst (mk h x i)) \<and> validRandoms (snd (mk h x i))"
  shows "validRandoms h \<Longrightarrow>
         list_all (freshPod ns) (fst (pushEach mk h i xs)) \<and> length (fst (pushEach mk h i xs)) = length xs
         \<and> validRandoms (snd (pushEach mk h i xs))"
proof (induction xs arbitrary: h i)
  case Nil
  then show ?case by simp
next
  case (Cons x xs)
  from mk [OF Cons.prems, of x i]
  have a: "freshPod ns (fst (mk h x i))" and b: "validRandoms (snd (mk h x i))" by simp_all
  from Cons.IH [OF b, of "Suc i"] a show ?case
    by (simp add: split_beta Let_def)
qed

lemma onlyConnections_refl: "onlyConnections p p"
proof -
  have "p = p\<lparr>connections := connections p\<rparr>" by simp
  then show ?thesis unfolding onlyConnections_def by (rule exI)
qed

lemma onlyConnections_push: "onlyConnections p q \<Longrightarrow> onlyConnections p (connectionsPush q t)"
  by (auto simp: onlyConnections_def connectionsPush_def)

lemma onlyConnections_fresh: "onlyConnections p q \<Longrightarrow> freshPod ns p \<Longrightarrow> freshPod ns q"
  by (auto simp: onlyConnections_def freshPod_def usageInRange_def)

lemma connectLoop_ok:
  assumes "all \<noteq> []"
  shows "validRandoms h \<Longrightarrow> onlyConnections p pod \<Longrightarrow>
         \<exists>pod' h'. connectLoop h all pod n = Inr (pod', h') \<and> validRandoms h' \<and> onlyConnections p pod'"
proof (induction n arbitrary: h pod)
  case 0
  then show ?case by simp
next
  case (Suc n)
  define r where "r = fst (mathRandom h)"
  define h1 where "h1 = snd (mathRandom h)"
  have v1: "validRandoms h1" using Suc.prems(1) by (simp add: h1_def mathRandom_valid)
  have "0 \<le> r \<and> r < 1" using mathRandom_range [OF Suc.prems(1)] by (simp add: r_def)
  moreover have "0 < length all" using assms by simp
  ultimately have k: "0 \<le> \<lfloor>r * real (length all)\<rfloor> \<and> \<lfloor>r * real (length all)\<rfloor> < int (length all)"
    using floor_scaled [of r "length all"] by simp
  define target where "target = all ! nat \<lfloor>r * real (length all)\<rfloor>"
  define pod1 where "pod1 = (if pod_id target \<noteq> pod_id pod \<and> \<not> connectionsInclude pod (pod_id target)
                           then connectionsPush pod (pod_id target) else pod)"
  have oc: "onlyConnections p pod1"
    using Suc.prems(2) by (simp add: pod1_def onlyConnections_push)
  have "connectLoop h all pod (Suc n) = connectLoop h1 all pod1 n"
    using k by (simp add: split_beta Let_def r_def h1_def pod1_def target_def)
  with Suc.IH [OF v1 oc] show ?case by simp
qed

lemma connectPod_ok:
  assumes "all \<noteq> []" and "validRandoms h"
  shows "\<exists>pod' h'. connectPod h all pod = Inr (pod', h') \<and> validRandoms h' \<and> onlyConnections pod pod'"
proof (cases "fst (mathRandom h) > 0.5")
  case True
  have v: "validRandoms (snd (mathRandom (snd (mathRandom h))))"
    using assms(2) by (simp add: mathRandom_valid)
  from connectLoop_ok [OF assms(1) v onlyConnections_refl] True
  show ?thesis by (simp add: connectPod_def split_beta Let_def)
next
  case False
  then show ?thesis using assms(2)
    by (simp add: connectPod_def split_beta Let_def mathRandom_valid onlyConnections_refl)
qed

lemma connectPods_ok:
  assumes "all \<noteq> []"
  shows "validRandoms h \<Longrightarrow>
         \<exists>ps' h'. connectPods h all ps = Inr (ps', h') \<and> validRandoms h' \<and> list_all2 onlyConnections ps ps'"
proof (induction ps arbitrary: h)
  case Nil
  then show ?case by simp
next
  case (Cons a ps)
  from connectPod_ok [OF assms Cons.prems, of a]
  obtain a' h1 where a: "connectPod h all a = Inr (a', h1)" "validRandoms h1" "onlyConnections a a'"
    by blast
  from Cons.IH [OF a(2)]
  obtain ps' h2 where ps: "connectPods h1 all ps = Inr (ps', h2)" "validRandoms h2"
      "list_all2 onlyConnections ps ps'"
    by blast
  from a ps show ?case by simp
qed

lemma list_all2_fresh:
  "list_all2 onlyConnections ps qs \<Longrightarrow> list_all (freshPod ns) ps \<Longrightarrow> list_all (freshPod ns) qs"
  by (induction ps qs rule: list_all2_induct) (auto intro: onlyConnections_fresh)

lemma generateMockPods_ok:
  assumes "validRandoms h"
  shows "\<exists>ps h'. generateMockPods h = Inr (ps, h') \<and> validRandoms h' \<and> initialPods ps"
proof -
  define ds where "ds = fst (pushEach defaultPod h 0 names)"
  define h1 where "h1 = snd (pushEach defaultPod h 0 names)"
  define ss where "ss = fst (pushEach systemPod h1 0 systemNames)"
  define h2 where "h2 = snd (pushEach systemPod h1 0 systemNames)"
  have d: "list_all (freshPod ''default'') ds \<and> length ds = 5 \<and> validRandoms h1"
    using pushEach_fresh [of "''default''" defaultPod h 0 names, OF defaultPod_fresh assms]
    by (simp add: ds_def h1_def names_def)
  then have v1: "validRandoms h1" by simp
  have s: "list_all (freshPod ''kube-system'') ss \<and> length ss = 4 \<and> validRandoms h2"
    using pushEach_fresh [of "''kube-system''" systemPod h1 0 systemNames, OF systemPod_fresh v1]
    by (simp add: ss_def h2_def systemNames_def)
  then have v2: "validRandoms h2" by simp
  have ne: "ds @ ss \<noteq> []" using d by auto
  from connectPods_ok [OF ne v2, of "ds @ ss"]
  obtain ps h' where ps: "connectPods h2 (ds @ ss) (ds @ ss) = Inr (ps, h')" "validRandoms h'"
      "list_all2 onlyConnections (ds @ ss) ps"
    by blast
  have g: "generateMockPods h = Inr (ps, h')"
    using ps(1) by (simp add: generateMockPods_def split_beta Let_def ds_def h1_def ss_def h2_def)
  have len: "length ps = 9" using list_all2_lengthD [OF ps(3)] d s by simp
  have t: "list_all2 onlyConnections ds (take 5 ps)"
    using list_all2_takeI [OF ps(3), of 5] d by simp
  have dr: "list_all2 onlyConnections ss (drop 5 ps)"
    using list_all2_dropI [OF ps(3), of 5] d by simp
  have "initialPods ps"
    using list_all2_fresh [OF t] list_all2_fresh [OF dr] d s len by (simp add: initialPods_def)
  with g ps(2) show ?thesis by blast
qed

lemma tickPods_status: "list_all runningOrError ps \<Longrightarrow> list_all runningOrError (fst (tickPods h ps))"
proof (induction ps arbitrary: h)
  case Nil
  then show ?case by simp
next
  case (Cons a ps)
  have "runningOrError (fst (tickPod h a))"
    using Cons.prems by (auto simp: runningOrError_def tickPod_status flipStatus_def)
  with Cons show ?case by (simp add: split_beta Let_def)
qed

lemma perform_current:
  "current this (perform this H a) = current this H
   \<or> (\<exists>h. current this (perform this H a)
            = (current this H)\<lparr>pods := fst (tickPods h (pods (current this H)))\<rparr>)"
proof (cases a)
  case (Tick h)
  then show ?thesis using getState_current [of this h H] by auto
next
  case (Command h c)
  then show ?thesis by (simp add: executeCommand_store)
qed

lemma run_invariant:
  assumes tick: "\<And>h ps. list_all P ps \<Longrightarrow> list_all P (fst (tickPods h ps))"
  shows "list_all P (pods (current this H)) \<Longrightarrow> list_all P (pods (current this (run this H acts)))"
proof (induction acts arbitrary: H)
  case Nil
  then show ?case by (simp add: run_def)
next
  case (Cons a acts)
  have "list_all P (pods (current this (perform this H a)))"
    using perform_current [of this H a] Cons.prems tick by auto
  from Cons.IH [OF this] show ?case by (simp add: run_def)
qed

lemma tickPods_all_usage: "list_all usageInRange (fst (tickPods h ps))"
  using tickPods_usage [of _ h ps] by (simp add: list_all_iff)

lemma initialPods_usage: "initialPods ps \<Longrightarrow> list_all usageInRange ps"
proof -
  assume a: "initialPods ps"
  then have "list_all usageInRange (take 5 ps)" "list_all usageInRange (drop 5 ps)"
    by (auto simp: initialPods_def freshPod_def list_all_iff)
  then have "list_all usageInRange (take 5 ps @ drop 5 ps)" by (simp only: list_all_append)
  then show ?thesis by simp
qed

lemma initialPods_status: "initialPods ps \<Longrightarrow> list_all runningOrError ps"
proof -
  assume a: "initialPods ps"
  then have "list_all runningOrError (take 5 ps)" "list_all runningOrError (drop 5 ps)"
    by (auto simp: initialPods_def freshPod_def runningOrError_def list_all_iff)
  then have "list_all runningOrError (take 5 ps @ drop 5 ps)" by (simp only: list_all_append)
  then show ?thesis by simp
qed

lemma constructor_ok:
  assumes "validRandoms h"
  shows "\<exists>this H' h'. constructor h H = Inr (this, H', h') \<and> validRandoms h'
           \<and> initialPods (pods (current this H'))
           \<and> namespaces (current this H') = INITIAL_NAMESPACES"
proof -
  from generateMockPods_ok [OF assms]
  obtain ps h' where g: "generateMockPods h = Inr (ps, h')" "validRandoms h'" "initialPods ps"
    by blast
  then show ?thesis
    by (simp add: constructor_def alloc_def current_def deref_def split_beta Let_def)
qed

text \<open>
  Claim C1. When \<open>Math.random()\<close> keeps its contract, the constructor succeeds, and in the
  state it builds and in every state reached from it by any sequence of ticks and command
  executions, every pod has \<open>0 \<le> usage.cpu \<le> 100\<close> and \<open>0 \<le> usage.memory \<le> 100\<close>.
\<close>

theorem usage_invariant:
  assumes "validRandoms h"
  shows "\<exists>this H1 h1. constructor h H = Inr (this, H1, h1)
           \<and> (\<forall>acts. \<forall>p \<in> set (pods (current this (run this H1 acts))).
                 0 \<le> cpu (usage p) \<and> cpu (usage p) \<le> 100
                 \<and> 0 \<le> memory (usage p) \<and> memory (usage p) \<le> 100)"
proof -
  from constructor_ok [OF assms, of H]
  obtain this H1 h1 where c: "constructor h H = Inr (this, H1, h1)"
      and i: "initialPods (pods (current this H1))"
    by blast
  have "list_all usageInRange (pods (current this (run this H1 acts)))" for acts
    using run_invariant [of usageInRange this H1 acts] tickPods_all_usage initialPods_usage [OF i]
    by blast
  then have "\<forall>acts. \<forall>p \<in> set (pods (current this (run this H1 acts))).
                 0 \<le> cpu (usage p) \<and> cpu (usage p) \<le> 100
                 \<and> 0 \<le> memory (usage p) \<and> memory (usage p) \<le> 100"
    by (simp add: list_all_iff usageInRange_def)
  with c show ?thesis by blast
qed

lemma exampleHost_valid: "validRandoms exampleHost"
  by (simp add: validRandoms_def exampleHost_def)

theorem usage_invariant_witness:
  "validRandoms exampleHost
   \<and> (\<exists>this H1 h1. constructor exampleHost emptyHeap = Inr (this, H1, h1)
           \<and> (\<forall>acts. \<forall>p \<in> set (pods (current this (run this H1 acts))).
                 0 \<le> cpu (usage p) \<and> cpu (usage p) \<le> 100
                 \<and> 0 \<le> memory (usage p) \<and> memory (usage p) \<le> 100))"
  using usage_invariant [OF exampleHost_valid, of emptyHeap] exampleHost_valid by simp

section \<open>Properties of the alert loop\<close>

lemma statusAlert_content: "alertContent (fst (statusAlert h p)) = statusContent p"
  by (simp add: statusAlert_def alertContent_def statusContent_def split_beta Let_def)

lemma utilizationAlert_content: "alertContent (fst (utilizationAlert h p)) = utilizationContent p"
  by (simp add: utilizationAlert_def alertContent_def utilizationContent_def THRESHOLD_def
      split_beta Let_def)

lemma alertPod_content:
  "map alertContent (fst (alertPod prev (acc, h) p)) = map alertContent acc @ podContents prev p"
proof (cases "lastPodOf prev p")
  case None
  then show ?thesis
    by (simp add: alertPod_def podContents_def statusEdge_def utilizationEdge_def lastPodOf_def)
next
  case (Some lp)
  then have f: "find (\<lambda>q. pod_id q = pod_id p) (pods prev) = Some lp"
    by (simp add: lastPodOf_def)
  show ?thesis
    using Some
    by (simp add: alertPod_def f podContents_def statusEdge_def utilizationEdge_def
        THRESHOLD_def split_beta Let_def statusAlert_content utilizationAlert_content)
qed

lemma alertFold_content:
  "map alertContent (fst (foldl (alertPod prev) (acc, h) ps))
     = map alertContent acc @ concat (map (podContents prev) ps)"
proof (induction ps arbitrary: acc h)
  case Nil
  show ?case by simp
next
  case (Cons p ps)
  obtain acc1 h1 where s: "alertPod prev (acc, h) p = (acc1, h1)"
    by (cases "alertPod prev (acc, h) p")
  have "map alertContent acc1 = map alertContent acc @ podContents prev p"
    using alertPod_content [of prev acc h p] s by simp
  with Cons.IH [of acc1 h1] s show ?case by simp
qed

lemma alertLoop_content:
  "map alertContent (fst (alertLoop h prev next)) = concat (map (podContents prev) (pods next))"
  using alertFold_content [of prev "[]" h "pods next"] by (simp add: alertLoop_def)





lemma podIn_filter: "podIn s pid = Some p \<Longrightarrow> filter (\<lambda>q. pod_id q = pid) (pods s) = [p]"
  by (simp add: podIn_def split: list.splits)

lemma podIn_id: "podIn s pid = Some p \<Longrightarrow> pod_id p = pid"
proof -
  assume "podIn s pid = Some p"
  then have "p \<in> set (filter (\<lambda>q. pod_id q = pid) (pods s))" by (simp add: podIn_filter)
  then show ?thesis by simp
qed



lemma filter_concat_restrict:
  "(\<And>q. \<not> R q \<Longrightarrow> filter Q (f q) = []) \<Longrightarrow>
   filter Q (concat (map f ps)) = filter Q (concat (map f (filter R ps)))"
  by (induction ps) simp_all

lemma podContents_mem:
  "c \<in> set (podContents prev q) \<Longrightarrow> fst c = pod_id q \<and> lastPodOf prev q \<noteq> None"
  by (auto simp: podContents_def statusContent_def utilizationContent_def statusEdge_def
      utilizationEdge_def split: if_splits option.splits)

lemma podContents_kind:
  "c \<in> set (podContents prev q) \<Longrightarrow> fst (snd (snd c)) = Utilization \<Longrightarrow>
   utilizationEdge prev q \<and> c = utilizationContent q"
  "c \<in> set (podContents prev q) \<Longrightarrow> fst (snd (snd c)) = Status \<Longrightarrow>
   statusEdge prev q \<and> c = statusContent q"
  by (auto simp: podContents_def statusContent_def utilizationContent_def split: if_splits)

lemma alertsFor_content:
  "map alertContent (alertsFor ty h pid prev next)
     = filter (\<lambda>c. fst c = pid \<and> fst (snd (snd c)) = ty)
         (concat (map (podContents prev) (filter (\<lambda>q. pod_id q = pid) (pods next))))"
proof -
  let ?as = "fst (alertLoop h prev next)"
  let ?Q = "\<lambda>c. fst c = pid \<and> fst (snd (snd c)) = ty"
  have "map alertContent (filter (\<lambda>a. podId a = pid \<and> alert_type a = ty) ?as) = filter ?Q (map alertContent ?as)"
    by (simp add: filter_map o_def alertContent_def)
  also have "\<dots> = filter ?Q (concat (map (podContents prev) (pods next)))"
    by (simp only: alertLoop_content)
  also have "\<dots> = filter ?Q (concat (map (podContents prev) (filter (\<lambda>q. pod_id q = pid) (pods next))))"
  proof (rule filter_concat_restrict)
    fix q :: Pod assume "pod_id q \<noteq> pid"
    then have "\<forall>c \<in> set (podContents prev q). \<not> ?Q c" using podContents_mem [of _ prev q] by auto
    then show "filter ?Q (podContents prev q) = []" by (simp only: filter_empty_conv)
  qed
  finally show ?thesis by (simp only: alertsFor_def)
qed

lemma alertsFor_unique:
  assumes "podIn next pid = Some p"
  shows "map alertContent (alertsFor Status h pid prev next)
           = (if statusEdge prev p then [statusContent p] else [])"
    and "map alertContent (alertsFor Utilization h pid prev next)
           = (if utilizationEdge prev p then [utilizationContent p] else [])"
proof -
  have f: "filter (\<lambda>q. pod_id q = pid) (pods next) = [p]" by (rule podIn_filter [OF assms])
  have i: "pod_id p = pid" by (rule podIn_id [OF assms])
  show "map alertContent (alertsFor Status h pid prev next)
           = (if statusEdge prev p then [statusContent p] else [])"
    by (simp add: alertsFor_content f podContents_def statusContent_def utilizationContent_def i)
  show "map alertContent (alertsFor Utilization h pid prev next)
           = (if utilizationEdge prev p then [utilizationContent p] else [])"
    by (simp add: alertsFor_content f podContents_def statusContent_def utilizationContent_def i)
qed

lemma alertLoop_origin:
  assumes "a \<in> set (fst (alertLoop h prev next))"
  shows "\<exists>p \<in> set (pods next). alertContent a \<in> set (podContents prev p)"
proof -
  from assms have "alertContent a \<in> set (map alertContent (fst (alertLoop h prev next)))" by simp
  then have "alertContent a \<in> set (concat (map (podContents prev) (pods next)))"
    by (simp only: alertLoop_content)
  then show ?thesis by auto
qed

lemma lastPodOf_id: "pod_id p = pid \<Longrightarrow> lastPodOf prev p = find (\<lambda>q. pod_id q = pid) (pods prev)"
  by (auto simp: lastPodOf_def)

text \<open>
  Claim C5. Let the next snapshot hold exactly one pod with the id \<open>pid\<close>, and let \<open>lp\<close> be
  the pod the loop finds under that id in the previous snapshot. Then the loop emits for
  that pod exactly one Status alert, of severity Critical and with the message
  \<open>Pod {name} has entered Error state!\<close>, when the pod is in \<open>Error\<close> now and \<open>lp\<close> was
  not; otherwise it emits none (so none from \<open>Error\<close> to \<open>Error\<close>). A pod whose id the
  previous snapshot does not hold is skipped: the loop emits no alert of any kind under
  that id.
\<close>

theorem status_alert_edge:
  "(podIn next pid = Some p \<and> find (\<lambda>q. pod_id q = pid) (pods prev) = Some lp \<longrightarrow>
      map alertContent (alertsFor Status h pid prev next)
        = (if status p = ERROR \<and> status lp \<noteq> ERROR
           then [(pid, pod_name p, Status, Critical,
                  ''Pod '' @ pod_name p @ '' has entered Error state!'')]
           else []))
   \<and> (find (\<lambda>q. pod_id q = pid) (pods prev) = None \<longrightarrow>
        (\<forall>a \<in> set (fst (alertLoop h prev next)). podId a \<noteq> pid))"
proof (intro conjI impI)
  assume a: "podIn next pid = Some p \<and> find (\<lambda>q. pod_id q = pid) (pods prev) = Some lp"
  then have i: "pod_id p = pid" using podIn_id [of "next" pid p] by simp
  with a have "lastPodOf prev p = Some lp" by (simp add: lastPodOf_id)
  then have "statusEdge prev p = (status p = ERROR \<and> status lp \<noteq> ERROR)"
    by (simp add: statusEdge_def)
  with a i show "map alertContent (alertsFor Status h pid prev next)
        = (if status p = ERROR \<and> status lp \<noteq> ERROR
           then [(pid, pod_name p, Status, Critical,
                  ''Pod '' @ pod_name p @ '' has entered Error state!'')]
           else [])"
    by (simp add: alertsFor_unique statusContent_def)
next
  assume n: "find (\<lambda>q. pod_id q = pid) (pods prev) = None"
  show "\<forall>a \<in> set (fst (alertLoop h prev next)). podId a \<noteq> pid"
  proof
    fix a assume "a \<in> set (fst (alertLoop h prev next))"
    from alertLoop_origin [OF this]
    obtain q where q: "q \<in> set (pods next)" "alertContent a \<in> set (podContents prev q)" by blast
    from podContents_mem [OF q(2)] have c: "podId a = pod_id q" "lastPodOf prev q \<noteq> None"
      by (simp_all add: alertContent_def)
    show "podId a \<noteq> pid"
    proof
      assume "podId a = pid"
      with c(1) have "pod_id q = pid" by simp
      then have "lastPodOf prev q = None" using n by (simp add: lastPodOf_id)
      with c(2) show False by simp
    qed
  qed
qed

text \<open>
  The theorem at work on one pod: \<open>Running\<close> to \<open>Error\<close> gives the one alert, \<open>Error\<close> to
  \<open>Error\<close> gives none, and a pod that was not there before gives none.
\<close>

theorem status_alert_edge_witness:
  "podIn (statusSnapshot ERROR) ''pod-1'' = Some (examplePod\<lparr>status := ERROR\<rparr>)
   \<and> find (\<lambda>q. pod_id q = ''pod-1'') (pods (statusSnapshot RUNNING))
       = Some (examplePod\<lparr>status := RUNNING\<rparr>)
   \<and> map alertContent
        (alertsFor Status exampleHost ''pod-1'' (statusSnapshot RUNNING) (statusSnapshot ERROR))
       = [(''pod-1'', ''web'', Status, Critical, ''Pod web has entered Error state!'')]
   \<and> find (\<lambda>q. pod_id q = ''pod-1'') (pods (statusSnapshot ERROR))
       = Some (examplePod\<lparr>status := ERROR\<rparr>)
   \<and> map alertContent
        (alertsFor Status exampleHost ''pod-1'' (statusSnapshot ERROR) (statusSnapshot ERROR))
       = []
   \<and> find (\<lambda>q. pod_id q = ''pod-1'') (pods \<lparr>pods = [], namespaces = []\<rparr>) = None
   \<and> \<not> (\<exists>a \<in> set (fst (alertLoop exampleHost \<lparr>pods = [], namespaces = []\<rparr> (statusSnapshot ERROR))).
           podId a = ''pod-1'')"
proof -
  have p: "podIn (statusSnapshot s) ''pod-1'' = Some (examplePod\<lparr>status := s\<rparr>)" for s
    by (simp add: podIn_def statusSnapshot_def examplePod_def)
  have f: "find (\<lambda>q. pod_id q = ''pod-1'') (pods (statusSnapshot s)) = Some (examplePod\<lparr>status := s\<rparr>)" for s
    by (simp add: statusSnapshot_def examplePod_def)
  have n: "pod_name (examplePod\<lparr>status := ERROR\<rparr>) = ''web''" by (simp add: examplePod_def)
  have 1: "map alertContent
        (alertsFor Status exampleHost ''pod-1'' (statusSnapshot RUNNING) (statusSnapshot ERROR))
       = [(''pod-1'', ''web'', Status, Critical, ''Pod web has entered Error state!'')]"
    using status_alert_edge [of "statusSnapshot ERROR" "''pod-1''" "examplePod\<lparr>status := ERROR\<rparr>"
        "statusSnapshot RUNNING" "examplePod\<lparr>status := RUNNING\<rparr>" exampleHost, THEN conjunct1]
    by (simp add: p f n)
  have 2: "map alertContent
        (alertsFor Status exampleHost ''pod-1'' (statusSnapshot ERROR) (statusSnapshot ERROR))
       = []"
    using status_alert_edge [of "statusSnapshot ERROR" "''pod-1''" "examplePod\<lparr>status := ERROR\<rparr>"
        "statusSnapshot ERROR" "examplePod\<lparr>status := ERROR\<rparr>" exampleHost, THEN conjunct1]
    by (simp add: p f)
  have 3: "\<not> (\<exists>a \<in> set (fst (alertLoop exampleHost \<lparr>pods = [], namespaces = []\<rparr> (statusSnapshot ERROR))).
           podId a = ''pod-1'')"
    using status_alert_edge [of "statusSnapshot ERROR" "''pod-1''" _ "\<lparr>pods = [], namespaces = []\<rparr>" _
        exampleHost, THEN conjunct2]
    by simp
  from 1 2 3 show ?thesis by (simp add: p f)
qed

lemma includesStr_append: "includesStr ys sub \<Longrightarrow> includesStr (xs @ ys) sub"
  by (induction xs) simp_all

lemma digits_96: "numberToString (mathRound 96) = ''96''"
  by (simp add: numberToString_def mathRound_def digitsOf.simps)

text \<open>
  Claim C4. Every Utilization alert the loop emits belongs to a pod of the next snapshot
  that crossed the threshold; it names the metric \<open>CPU\<close> when the CPU of that pod is above
  90 and \<open>Memory\<close> otherwise, its severity is Critical when the CPU is above 95 and Warning
  otherwise, and its message is
  \<open>High {Metric} usage on {name} ({round(max(cpu, memory))}%)\<close>. In particular a pod going
  from CPU 85, memory 50 to CPU 96, memory 50 yields exactly one alert, with the metric
  \<open>CPU\<close>, Critical, whose message contains \<open>96%\<close>.
\<close>

theorem utilization_alert_content:
  "(\<forall>a \<in> set (fst (alertLoop h prev next)). alert_type a = Utilization \<longrightarrow>
      (\<exists>p \<in> set (pods next).
         utilizationEdge prev p \<and> podId a = pod_id p \<and> podName a = pod_name p
         \<and> severity a = (if cpu (usage p) > 95 then Critical else Warning)
         \<and> message a
             = ''High '' @ (if cpu (usage p) > 90 then ''CPU'' else ''Memory'') @ '' usage on ''
               @ pod_name p @ '' (''
               @ numberToString (mathRound (max (cpu (usage p)) (memory (usage p)))) @ ''%)''))
   \<and> map alertContent
         (fst (alertLoop h \<lparr>pods = [q\<lparr>usage := \<lparr>cpu = 85, memory = 50\<rparr>\<rparr>], namespaces = ns\<rparr>
                          \<lparr>pods = [q\<lparr>usage := \<lparr>cpu = 96, memory = 50\<rparr>\<rparr>], namespaces = ns\<rparr>))
       = [(pod_id q, pod_name q, Utilization, Critical,
           ''High CPU usage on '' @ pod_name q @ '' (96%)'')]
   \<and> includesStr (''High CPU usage on '' @ pod_name q @ '' (96%)'') ''96%''"
proof (intro conjI ballI impI)
  fix a assume a: "a \<in> set (fst (alertLoop h prev next))" and u: "alert_type a = Utilization"
  from alertLoop_origin [OF a]
  obtain p where p: "p \<in> set (pods next)" "alertContent a \<in> set (podContents prev p)" by blast
  from u have "fst (snd (snd (alertContent a))) = Utilization" by (simp add: alertContent_def)
  from podContents_kind(1) [OF p(2) this]
  have e: "utilizationEdge prev p" and c: "alertContent a = utilizationContent p" by simp_all
  from c have "podId a = pod_id p \<and> podName a = pod_name p
         \<and> severity a = (if cpu (usage p) > 95 then Critical else Warning)
         \<and> message a
             = ''High '' @ (if cpu (usage p) > 90 then ''CPU'' else ''Memory'') @ '' usage on ''
               @ pod_name p @ '' (''
               @ numberToString (mathRound (max (cpu (usage p)) (memory (usage p)))) @ ''%)''"
    by (simp add: alertContent_def utilizationContent_def)
  with e p(1) show "\<exists>p \<in> set (pods next).
         utilizationEdge prev p \<and> podId a = pod_id p \<and> podName a = pod_name p
         \<and> severity a = (if cpu (usage p) > 95 then Critical else Warning)
         \<and> message a
             = ''High '' @ (if cpu (usage p) > 90 then ''CPU'' else ''Memory'') @ '' usage on ''
               @ pod_name p @ '' (''
               @ numberToString (mathRound (max (cpu (usage p)) (memory (usage p)))) @ ''%)''"
    by blast
next
  show "map alertContent
         (fst (alertLoop h \<lparr>pods = [q\<lparr>usage := \<lparr>cpu = 85, memory = 50\<rparr>\<rparr>], namespaces = ns\<rparr>
                          \<lparr>pods = [q\<lparr>usage := \<lparr>cpu = 96, memory = 50\<rparr>\<rparr>], namespaces = ns\<rparr>))
       = [(pod_id q, pod_name q, Utilization, Critical,
           ''High CPU usage on '' @ pod_name q @ '' (96%)'')]"
    by (simp add: alertLoop_content podContents_def statusEdge_def utilizationEdge_def
        lastPodOf_def utilizationContent_def digits_96)
next
  have "includesStr '' (96%)'' ''96%''" by simp
  then have "includesStr ((''High CPU usage on '' @ pod_name q) @ '' (96%)'') ''96%''"
    by (rule includesStr_append)
  then show "includesStr (''High CPU usage on '' @ pod_name q @ '' (96%)'') ''96%''" by simp
qed

text \<open>
  The example of the claim on the pod \<open>web\<close>: the alert is in the list the loop returns.
\<close>

theorem utilization_alert_content_witness:
  "\<exists>a. a \<in> set (fst (alertLoop exampleHost (snapshot 85 50) (snapshot 96 50)))
       \<and> alert_type a = Utilization \<and> podId a = ''pod-1'' \<and> severity a = Critical
       \<and> message a = ''High CPU usage on web (96%)''"
proof -
  let ?as = "fst (alertLoop exampleHost (snapshot 85 50) (snapshot 96 50))"
  note t = utilization_alert_content [of exampleHost "snapshot 85 50" "snapshot 96 50"
      examplePod INITIAL_NAMESPACES]
  from t have "map alertContent ?as
       = [(pod_id examplePod, pod_name examplePod, Utilization, Critical,
           ''High CPU usage on '' @ pod_name examplePod @ '' (96%)'')]"
    by (simp add: snapshot_def)
  then obtain a where a: "?as = [a]" "alertContent a = (pod_id examplePod, pod_name examplePod, Utilization, Critical,
           ''High CPU usage on '' @ pod_name examplePod @ '' (96%)'')"
    by (auto simp: map_eq_Cons_conv)
  then have m: "a \<in> set ?as" and u: "alert_type a = Utilization" and i: "podId a = ''pod-1''"
    by (simp_all add: alertContent_def examplePod_def)
  from t m u obtain p where p: "p \<in> set (pods (snapshot 96 50))"
      "severity a = (if cpu (usage p) > 95 then Critical else Warning)"
      "message a
             = ''High '' @ (if cpu (usage p) > 90 then ''CPU'' else ''Memory'') @ '' usage on ''
               @ pod_name p @ '' (''
               @ numberToString (mathRound (max (cpu (usage p)) (memory (usage p)))) @ ''%)''"
    by blast
  from p(1) have "p = examplePod\<lparr>usage := \<lparr>cpu = 96, memory = 50\<rparr>\<rparr>" by (simp add: snapshot_def)
  with p(2,3) have "severity a = Critical \<and> message a = ''High CPU usage on web (96%)''"
    by (simp add: examplePod_def digits_96)
  with m u i show ?thesis by blast
qed






lemma podIn_snapshot: "podIn (snapshot c m) ''pod-1'' = Some (examplePod\<lparr>usage := \<lparr>cpu = c, memory = m\<rparr>\<rparr>)"
  by (simp add: podIn_def snapshot_def examplePod_def)


lemma cpu_snapshot:
  "cpuAbove ''pod-1'' (snapshot c m) = (c > 90)" "cpuAtMost ''pod-1'' (snapshot c m) = (c \<le> 90)"
  by (simp_all add: cpuAbove_def cpuAtMost_def podIn_snapshot)




section \<open>The status flip\<close>



lemma reachable_status:
  assumes "validRandoms h"
  shows "\<exists>this H1 h1. constructor h H = Inr (this, H1, h1)
           \<and> (\<forall>acts. list_all runningOrError (pods (current this (run this H1 acts))))"
proof -
  from constructor_ok [OF assms, of H]
  obtain this H1 h1 where c: "constructor h H = Inr (this, H1, h1)"
      and i: "initialPods (pods (current this H1))"
    by blast
  have "list_all runningOrError (pods (current this (run this H1 acts)))" for acts
    using run_invariant [of runningOrError this H1 acts] tickPods_status initialPods_status [OF i]
    by blast
  with c show ?thesis by blast
qed

section \<open>Blank commands\<close>

lemma trim_blank: "trim ''   '' = []"
  by (simp add: trim_def isSpace_def)

lemma blank_falls_through:
  "trim command = [] \<Longrightarrow> executeCommand h H this command = (fallbackOutput command, H, h)"
  by (simp add: executeCommand_def)

lemma handleTerminalCommand_blank:
  "trim command = [] \<Longrightarrow> handleTerminalCommand h H app command = (app, H, h)"
  by (simp add: handleTerminalCommand_def)

text \<open>
  Claim C8 on the code. A command of three spaces is blank, and \<open>executeCommand\<close> answers
  it with the fallback text; \<open>handleUserInput\<close> runs such a step and appends the answer to
  the messages. \<open>handleTerminalCommand\<close>, on the same command, does nothing.
\<close>

theorem blank_command_answered:
  "trim ''   '' = []
   \<and> fst (executeCommand exampleHost (exampleStore (snapshot 80 50)) exampleSim ''   '')
       = ''Command executed:    '' @ [newline] @ ''Output: Success (Simulated)''
   \<and> messages (fst (handleUserInput exampleHost (exampleStore (snapshot 80 50)) exampleApp ''hello''
                      (Some \<lparr>steps = [blankStep], intent = QUERY, summary = ''done''\<rparr>)))
       = [welcomeMessage,
          \<lparr>role = User, content = ''hello'', data = None\<rparr>,
          \<lparr>role = Agent, content = ''done'',
            data = Some \<lparr>steps = [blankStep], intent = QUERY, summary = ''done''\<rparr>\<rparr>,
          \<lparr>role = Terminal,
            content = ''$    '' @ [newline] @ ''Command executed:    '' @ [newline]
                      @ ''Output: Success (Simulated)'',
            data = None\<rparr>]
   \<and> handleTerminalCommand exampleHost (exampleStore (snapshot 80 50)) exampleApp ''   ''
       = (exampleApp, exampleStore (snapshot 80 50), exampleHost)"
proof -
  have e: "executeCommand h H this ''   '' = (fallbackOutput ''   '', H, h)" for h H this
    by (rule blank_falls_through [OF trim_blank])
  have m: "messages (fst (handleUserInput exampleHost (exampleStore (snapshot 80 50)) exampleApp ''hello''
                      (Some \<lparr>steps = [blankStep], intent = QUERY, summary = ''done''\<rparr>)))
       = [welcomeMessage,
          \<lparr>role = User, content = ''hello'', data = None\<rparr>,
          \<lparr>role = Agent, content = ''done'',
            data = Some \<lparr>steps = [blankStep], intent = QUERY, summary = ''done''\<rparr>\<rparr>,
          \<lparr>role = Terminal,
            content = ''$    '' @ [newline] @ ''Command executed:    '' @ [newline]
                      @ ''Output: Success (Simulated)'',
            data = None\<rparr>]"
    by (simp add: handleUserInput_def e blankStep_def exampleApp_def terminalMessage_def
        fallbackOutput_def split_beta Let_def)
  show ?thesis
    using m by (simp add: e fallbackOutput_def trim_blank handleTerminalCommand_blank)
qed

section \<open>Snapshots and the store\<close>

lemma find_distinct:
  "distinct (map f xs) \<Longrightarrow> x \<in> set xs \<Longrightarrow> find (\<lambda>q. f q = f x) xs = Some x"
proof (induction xs)
  case Nil
  then show ?case by simp
next
  case (Cons a xs)
  show ?case
  proof (cases "f a = f x")
    case True
    with Cons.prems have "a = x" by (auto simp: image_iff)
    with True show ?thesis by simp
  next
    case False
    with Cons show ?thesis by auto
  qed
qed

lemma podContents_self:
  assumes "distinct (map pod_id (pods st))" and "p \<in> set (pods st)"
  shows "podContents st p = []"
proof -
  have "lastPodOf st p = Some p"
    using find_distinct [OF assms] by (simp add: lastPodOf_def)
  then show ?thesis by (simp add: podContents_def statusEdge_def utilizationEdge_def)
qed

lemma alertLoop_self:
  assumes "distinct (map pod_id (pods st))"
  shows "fst (alertLoop h st st) = []"
proof -
  have "concat (map (podContents st) (pods st)) = []"
    using podContents_self [OF assms] by simp
  then have "map alertContent (fst (alertLoop h st st)) = []"
    by (simp only: alertLoop_content)
  then show ?thesis by simp
qed

lemma tickPods_ids: "map pod_id (fst (tickPods h ps)) = map pod_id ps"
proof -
  have "list_all2 sameButStatusUsage ps qs \<Longrightarrow> map pod_id qs = map pod_id ps" for qs
    by (induction ps qs rule: list_all2_induct) (simp_all add: sameButStatusUsage_def)
  from this [OF tickPods_same] show ?thesis .
qed

lemma interval_silent:
  assumes "lastStateRef app = state (simulator app)"
    and "distinct (map pod_id (pods (current (simulator app) H)))"
  shows "alerts (fst (intervalCallback h H app)) = alerts app
         \<and> activeToast (fst (intervalCallback h H app)) = activeToast app
         \<and> lastStateRef (fst (intervalCallback h H app)) = state (simulator app)"
proof -
  define H1 where "H1 = fst (snd (getState h H (simulator app)))"
  define h1 where "h1 = snd (snd (getState h H (simulator app)))"
  have g: "getState h H (simulator app) = (state (simulator app), H1, h1)"
    using getState_ref [of h H "simulator app"] by (simp add: H1_def h1_def prod_eq_iff)
  have "pods (current (simulator app) H1) = fst (tickPods h (pods (current (simulator app) H)))"
    using getState_current [of "simulator app" h H] by (simp add: H1_def)
  then have "distinct (map pod_id (pods (current (simulator app) H1)))"
    using assms(2) by (simp add: tickPods_ids)
  then have "fst (alertLoop h1 (deref H1 (state (simulator app))) (deref H1 (state (simulator app)))) = []"
    unfolding current_def by (rule alertLoop_self)
  then show ?thesis
    by (simp add: intervalCallback_def g assms(1) split_beta Let_def)
qed

lemma mount_alias:
  "mount h H = Inr (app, H', h') \<Longrightarrow> lastStateRef app = state (simulator app)"
  by (auto simp: mount_def getState_def split_beta Let_def split: sum.splits)

lemma tick_example:
  "getState exampleHost (exampleStore (snapshot c m)) exampleSim
     = (0, exampleStore (snapshot (max 0 (min 100 (c + 5 / 2))) (max 0 (min 100 (m + 1)))),
        exampleHost)"
  by (simp add: getState_def tickPod_def mathRandom_def flipStatus_def exampleStore_def alloc_def
      emptyHeap_def assign_def deref_def snapshot_def exampleSim_def exampleHost_def
      split_beta Let_def)

lemma deref_example: "deref (exampleStore st) 0 = st"
  by (simp add: deref_def exampleStore_def alloc_def emptyHeap_def)

lemma snapshot_differs: "snapshot c m = snapshot c' m' \<longleftrightarrow> c = c' \<and> m = m'"
  by (auto simp: snapshot_def examplePod_def)

text \<open>
  Claim C2 on the code. \<open>getState\<close> returns the reference of the simulator's own state
  object: two calls return the same reference, and what the first call returned reads
  differently after the second. The component keeps that reference in \<open>lastStateRef\<close>, so
  its loop compares the state with itself: the CPU goes from 89 to 91.5 and no alert is
  emitted.
\<close>

theorem getState_returns_store:
  "(case getState exampleHost (exampleStore (snapshot 89 50)) exampleSim of
      (r1, H1, h1) \<Rightarrow>
        r1 = state exampleSim \<and> deref H1 r1 = snapshot (183 / 2) 51
        \<and> (case getState h1 H1 exampleSim of
              (r2, H2, h2) \<Rightarrow> r2 = r1 \<and> deref H2 r1 = snapshot 94 52 \<and> deref H2 r1 \<noteq> deref H1 r1))
   \<and> lastStateRef exampleApp = state (simulator exampleApp)
   \<and> cpuAtMost ''pod-1'' (snapshot 89 50) \<and> cpuAbove ''pod-1'' (snapshot (183 / 2) 51)
   \<and> alerts (fst (intervalCallback exampleHost (exampleStore (snapshot 89 50)) exampleApp)) = []"
proof -
  have a: "lastStateRef exampleApp = state (simulator exampleApp)"
    by (simp add: exampleApp_def exampleSim_def)
  have d: "distinct (map pod_id (pods (current (simulator exampleApp) (exampleStore (snapshot 89 50)))))"
    by (simp add: current_def exampleApp_def exampleSim_def deref_example snapshot_def)
  have "alerts (fst (intervalCallback exampleHost (exampleStore (snapshot 89 50)) exampleApp))
          = alerts exampleApp"
    using interval_silent [OF a d, of exampleHost] by simp
  then have i: "alerts (fst (intervalCallback exampleHost (exampleStore (snapshot 89 50)) exampleApp)) = []"
    by (simp add: exampleApp_def)
  have z: "state exampleSim = 0" by (simp add: exampleSim_def)
  show ?thesis
    using i a by (simp add: tick_example deref_example snapshot_differs cpu_snapshot z)
qed

section \<open>Properties of the pod listing\<close>


























end
